theory Spec2Isabelle
  imports Main "HOL-Library.Multiset"
begin

section \<open>AstraMesh QVic Reforge Chalice: the aggregation service of \<open>backend/main.py\<close>\<close>

text \<open>
  The service fans a query out to a web search provider and to Twitter, merges what the
  two fetchers return, sorts the merged list newest first, optionally asks a language
  model for a summary, and answers with an \<open>AggregationResult\<close>.

  Conventions of the embedding.
  \<^item> Python exceptions are values of \<open>exn\<close>; only subclasses of \<open>Exception\<close> are
    modelled (cancellation and interpreter exit are outside the model), so every
    \<open>except Exception\<close> of the source catches every \<open>exn\<close>.
  \<^item> External collaborators are functions handed to the code: the HTTP client maps a URL
    to the outcome of \<open>client.get\<close>, the Twitter client maps the arguments of
    \<open>search_recent_tweets\<close> to its outcome, the language model maps a prompt to the
    outcome of \<open>ainvoke\<close>, and the wall clock is a function giving the reading of each
    \<open>datetime.now()\<close>.
  \<^item> Calls of \<open>logger\<close> are left out: they have no effect on any value returned.
  \<^item> Python \<open>str\<close> is \<open>string\<close>; the case mappings of \<open>str.title\<close> are the ASCII ones.
\<close>

subsection \<open>Python values\<close>

datatype exn =
    NetworkError
  | JSONDecodeError
  | AttributeError
  | TypeError
  | ValidationError
  | ProviderError
  | OSError

text \<open>What \<open>response.json()\<close> yields (floating-point numbers are left out).\<close>

datatype json =
    JNull
  | JBool bool
  | JInt int
  | JStr string
  | JList "json list"
  | JDict "(string \<times> json) list"

text \<open>Truth value of a Python object, as \<open>if x:\<close> tests it.\<close>

fun truthy :: "json \<Rightarrow> bool" where
  "truthy JNull = False"
| "truthy (JBool b) = b"
| "truthy (JInt n) = (n \<noteq> 0)"
| "truthy (JStr s) = (s \<noteq> [])"
| "truthy (JList xs) = (xs \<noteq> [])"
| "truthy (JDict kvs) = (kvs \<noteq> [])"

text \<open>\<open>d.get(k, default)\<close> on a dict.\<close>

definition dict_get :: "(string \<times> json) list \<Rightarrow> string \<Rightarrow> json \<Rightarrow> json" where
  "dict_get d k dflt = (case map_of d k of None \<Rightarrow> dflt | Some v \<Rightarrow> v)"

text \<open>\<open>xs[:n]\<close>: a negative bound counts from the end.\<close>

definition py_slice_to :: "int \<Rightarrow> 'a list \<Rightarrow> 'a list" where
  "py_slice_to n xs = (if 0 \<le> n then take (nat n) xs else take (length xs - nat (- n)) xs)"

text \<open>
  A \<open>datetime\<close> is naive or timezone-aware; the integer is its instant in microseconds.
  Python orders two naive or two aware values by their instants and raises \<open>TypeError\<close>
  when asked to order a naive against an aware one.
\<close>

datatype datetime = Naive int | Aware int

fun instant :: "datetime \<Rightarrow> int" where
  "instant (Naive t) = t"
| "instant (Aware t) = t"

fun is_naive :: "datetime \<Rightarrow> bool" where
  "is_naive (Naive t) = True"
| "is_naive (Aware t) = False"

definition dt_less :: "datetime \<Rightarrow> datetime \<Rightarrow> exn + bool" where
  "dt_less a b = (if is_naive a = is_naive b then Inr (instant a < instant b) else Inl TypeError)"

text \<open>\<open>a >= b\<close> holds: the two values can be ordered and \<open>a\<close> is not the older one.\<close>

definition dt_ge :: "datetime \<Rightarrow> datetime \<Rightarrow> bool" where
  "dt_ge a b = (dt_less a b = Inr False)"

subsection \<open>String operations used by the fetchers\<close>

text \<open>\<open>s.split(sep)\<close> for a one-character separator; the result is never empty.\<close>

fun py_split :: "char \<Rightarrow> string \<Rightarrow> string list" where
  "py_split sep [] = [[]]"
| "py_split sep (c # cs) =
     (if c = sep then [] # py_split sep cs
      else (case py_split sep cs of
              [] \<Rightarrow> [[c]]
            | w # ws \<Rightarrow> (c # w) # ws))"

definition py_replace :: "char \<Rightarrow> char \<Rightarrow> string \<Rightarrow> string" where
  "py_replace old new s = map (\<lambda>c. if c = old then new else c) s"

definition is_lower :: "char \<Rightarrow> bool" where
  "is_lower c = (97 \<le> (of_char c :: nat) \<and> (of_char c :: nat) \<le> 122)"

definition is_upper :: "char \<Rightarrow> bool" where
  "is_upper c = (65 \<le> (of_char c :: nat) \<and> (of_char c :: nat) \<le> 90)"

definition to_upper :: "char \<Rightarrow> char" where
  "to_upper c = (if is_lower c then char_of ((of_char c :: nat) - 32) else c)"

definition to_lower :: "char \<Rightarrow> char" where
  "to_lower c = (if is_upper c then char_of ((of_char c :: nat) + 32) else c)"

text \<open>
  \<open>s.title()\<close>: a cased character that follows an uncased one (or starts the string)
  is upper-cased, every other cased character is lower-cased. The cased characters here
  are the ASCII letters; on text with other letters Python changes their case too, which
  this function does not.
\<close>

fun title_from :: "bool \<Rightarrow> string \<Rightarrow> string" where
  "title_from prev_cased [] = []"
| "title_from prev_cased (c # cs) =
     (if is_lower c \<or> is_upper c
      then (if prev_cased then to_lower c else to_upper c) # title_from True cs
      else c # title_from False cs)"

definition py_title :: "string \<Rightarrow> string" where
  "py_title s = title_from False s"

text \<open>\<open>str(n)\<close> for an integer.\<close>

fun str_nat :: "nat \<Rightarrow> string" where
  "str_nat n =
     (if n < 10 then [char_of (48 + n)]
      else str_nat (n div 10) @ [char_of (48 + n mod 10)])"

definition str_int :: "int \<Rightarrow> string" where
  "str_int i = (if i < 0 then CHR ''-'' # str_nat (nat (- i)) else str_nat (nat i))"

subsection \<open>The data model\<close>

record ContentItem =
  title :: string
  content :: string
  source :: string
  url :: "string option"
  timestamp :: datetime
  metadata :: "(string \<times> json) list"

record AggregationRequest =
  query :: string
  sources :: "string list"
  max_results :: int
  summarize :: bool

text \<open>
  \<open>processing_time\<close> is the difference of two clock readings; it is kept in
  microseconds instead of the floating-point seconds of the source.
\<close>

record AggregationResult =
  res_query :: string
  items :: "ContentItem list"
  summary :: "string option"
  total_items :: int
  sources_used :: "string list"
  processing_time :: int

text \<open>What a coroutine handed to \<open>asyncio.gather(..., return_exceptions=True)\<close> yields.\<close>

datatype task_result = Returned "ContentItem list" | Raised exn

subsection \<open>The web fetcher, \<open>aggregate_web_content\<close>\<close>

text \<open>
  The outcome of \<open>client.get(search_url, timeout=10.0)\<close>: an exception (connection
  failure, timeout), or a response with its status code and what \<open>response.json()\<close>
  does on it.
\<close>

datatype http_outcome = GetRaises exn | GetResponse int "exn + json"

definition search_url :: "string \<Rightarrow> string" where
  "search_url q = ''https://api.duckduckgo.com/?q='' @ q @ ''&format=json&no_html=1&skip_disambig=1''"

text \<open>
  \<open>data.get("RelatedTopics", [])[:max_results]\<close> and the values the \<open>for\<close> loop then
  visits: a list gives its elements, a string its characters, and any other value cannot
  be sliced.
\<close>

definition sliced_topics :: "json \<Rightarrow> int \<Rightarrow> exn + json list" where
  "sliced_topics v n =
     (case v of
        JList xs \<Rightarrow> Inr (py_slice_to n xs)
      | JStr s \<Rightarrow> Inr (map (\<lambda>c. JStr [c]) (py_slice_to n s))
      | _ \<Rightarrow> Inl TypeError)"

text \<open>
  One round of the loop over the related topics. \<open>Inr None\<close>: the topic is skipped by
  the \<open>isinstance(topic, dict) and "Text" in topic\<close> test. \<open>Inl\<close>: building the item
  raises, either in \<open>.split\<close> on a \<open>FirstURL\<close> that is no string or in the
  validation of \<open>ContentItem\<close>, whose \<open>content\<close> must be a string.
\<close>

definition web_topic_item :: "int \<Rightarrow> json \<Rightarrow> exn + ContentItem option" where
  "web_topic_item now topic =
     (case topic of
        JDict kvs \<Rightarrow>
          (case map_of kvs ''Text'' of
             None \<Rightarrow> Inr None
           | Some txt \<Rightarrow>
               (case dict_get kvs ''FirstURL'' (JStr []) of
                  JStr u \<Rightarrow>
                    (case txt of
                       JStr t \<Rightarrow>
                         Inr (Some \<lparr>title = py_title (py_replace CHR ''-'' CHR '' '' (last (py_split CHR ''/'' u))),
                                    content = t,
                                    source = ''web'',
                                    url = (case map_of kvs ''FirstURL'' of None \<Rightarrow> None | Some _ \<Rightarrow> Some u),
                                    timestamp = Naive now,
                                    metadata = [(''search_engine'', JStr ''duckduckgo'')]\<rparr>)
                     | _ \<Rightarrow> Inl ValidationError)
                | _ \<Rightarrow> Inl AttributeError))
      | _ \<Rightarrow> Inr None)"

text \<open>
  The loop appends to the list \<open>items\<close> of the source (here \<open>acc\<close>); when a round raises, the loop ends and the
  list keeps what was appended before. \<open>now k\<close> is the reading of the clock taken while
  \<open>k\<close> items are in the list.
\<close>

fun web_topics_loop :: "(nat \<Rightarrow> int) \<Rightarrow> json list \<Rightarrow> ContentItem list \<Rightarrow> exn option \<times> ContentItem list" where
  "web_topics_loop now [] acc = (None, acc)"
| "web_topics_loop now (topic # rest) acc =
     (case web_topic_item (now (length acc)) topic of
        Inl e \<Rightarrow> (Some e, acc)
      | Inr None \<Rightarrow> web_topics_loop now rest acc
      | Inr (Some item) \<Rightarrow> web_topics_loop now rest (acc @ [item]))"

text \<open>
  The item built from the abstract. \<open>ContentItem\<close> validates \<open>title\<close> and \<open>content\<close>
  as strings and \<open>url\<close> as a string or \<open>None\<close>.
\<close>

definition web_abstract_item :: "int \<Rightarrow> string \<Rightarrow> (string \<times> json) list \<Rightarrow> exn + ContentItem" where
  "web_abstract_item now q data =
     (case (dict_get data ''Heading'' (JStr (py_title q)), dict_get data ''Abstract'' JNull) of
        (JStr h, JStr a) \<Rightarrow>
          (case dict_get data ''AbstractURL'' JNull of
             JNull \<Rightarrow>
               Inr \<lparr>title = h, content = a, source = ''web'', url = None, timestamp = Naive now,
                    metadata = [(''type'', JStr ''abstract''), (''search_engine'', JStr ''duckduckgo'')]\<rparr>
           | JStr u \<Rightarrow>
               Inr \<lparr>title = h, content = a, source = ''web'', url = Some u, timestamp = Naive now,
                    metadata = [(''type'', JStr ''abstract''), (''search_engine'', JStr ''duckduckgo'')]\<rparr>
           | _ \<Rightarrow> Inl ValidationError)
      | _ \<Rightarrow> Inl ValidationError)"

text \<open>
  The body of the \<open>try\<close> block: the exception that ended it, if any, and the list
  \<open>items\<close> (here \<open>acc\<close>) as it stands when the block is left.
\<close>

definition web_try :: "(string \<Rightarrow> http_outcome) \<Rightarrow> (nat \<Rightarrow> int) \<Rightarrow> string \<Rightarrow> int \<Rightarrow> exn option \<times> ContentItem list" where
  "web_try http_get now q n =
     (case http_get (search_url q) of
        GetRaises e \<Rightarrow> (Some e, [])
      | GetResponse status_code body \<Rightarrow>
          if status_code \<noteq> 200 then (None, [])
          else
            (case body of
               Inl e \<Rightarrow> (Some e, [])
             | Inr (JDict data) \<Rightarrow>
                 (case sliced_topics (dict_get data ''RelatedTopics'' (JList [])) n of
                    Inl e \<Rightarrow> (Some e, [])
                  | Inr topics \<Rightarrow>
                      (case web_topics_loop now topics [] of
                         (Some e, acc) \<Rightarrow> (Some e, acc)
                       | (None, acc) \<Rightarrow>
                           if truthy (dict_get data ''Abstract'' JNull)
                           then (case web_abstract_item (now (length acc)) q data of
                                   Inl e \<Rightarrow> (Some e, acc)
                                 | Inr item \<Rightarrow> (None, acc @ [item]))
                           else (None, acc)))
             | Inr _ \<Rightarrow> (Some AttributeError, [])))"

text \<open>\<open>except Exception\<close> swallows the exception; the function returns \<open>items\<close>.\<close>

definition aggregate_web_content :: "(string \<Rightarrow> http_outcome) \<Rightarrow> (nat \<Rightarrow> int) \<Rightarrow> string \<Rightarrow> int \<Rightarrow> task_result" where
  "aggregate_web_content http_get now q n = Returned (snd (web_try http_get now q n))"

subsection \<open>The Twitter fetcher, \<open>aggregate_twitter_content\<close>\<close>

text \<open>
  A tweet as \<open>tweepy\<close> hands it over: \<open>id\<close> and \<open>text\<close> are always there, the
  requested fields may be \<open>None\<close>; \<open>created_at\<close>, when given, is timezone-aware or
  naive as the client library built it.
\<close>

record tweet =
  tweet_id :: int
  tweet_text :: string
  author_id :: "int option"
  created_at :: "datetime option"
  public_metrics :: json

text \<open>
  The outcome of \<open>search_recent_tweets(query, max_results, tweet_fields)\<close>: an
  exception, or a response whose \<open>data\<close> is \<open>None\<close> or a list of tweets.
\<close>

datatype search_outcome = SearchRaises exn | SearchResponse "tweet list option"

type_synonym twitter_api = "string \<Rightarrow> int \<Rightarrow> search_outcome"

text \<open>The outcome of \<open>openai_client.ainvoke([message])\<close>: an exception, or \<open>response.content\<close>.\<close>

datatype llm_outcome = InvokeRaises exn | InvokeReturns string

type_synonym llm_api = "string \<Rightarrow> llm_outcome"

text \<open>The module-level variables.\<close>

record state =
  twitter_client :: "twitter_api option"
  openai_client :: "llm_api option"
  aggregation_tasks :: "unit list"

definition str_opt_int :: "int option \<Rightarrow> string" where
  "str_opt_int v = (case v of None \<Rightarrow> ''None'' | Some i \<Rightarrow> str_int i)"

definition tweet_item :: "int \<Rightarrow> tweet \<Rightarrow> ContentItem" where
  "tweet_item now tw =
     \<lparr>title = ''Tweet by '' @ str_opt_int (author_id tw),
      content = tweet_text tw,
      source = ''twitter'',
      url = Some (''https://twitter.com/i/status/'' @ str_int (tweet_id tw)),
      timestamp = (case created_at tw of Some t \<Rightarrow> t | None \<Rightarrow> Naive now),
      metadata = [(''tweet_id'', JInt (tweet_id tw)),
                  (''author_id'', (case author_id tw of None \<Rightarrow> JNull | Some a \<Rightarrow> JInt a)),
                  (''metrics'', public_metrics tw)]\<rparr>"

fun tweets_loop :: "(nat \<Rightarrow> int) \<Rightarrow> tweet list \<Rightarrow> ContentItem list \<Rightarrow> ContentItem list" where
  "tweets_loop now [] acc = acc"
| "tweets_loop now (tw # rest) acc = tweets_loop now rest (acc @ [tweet_item (now (length acc)) tw])"

text \<open>The body of the \<open>try\<close> block, as for the web fetcher.\<close>

definition twitter_try :: "twitter_api \<Rightarrow> (nat \<Rightarrow> int) \<Rightarrow> string \<Rightarrow> int \<Rightarrow> exn option \<times> ContentItem list" where
  "twitter_try client now q n =
     (case client q (min n 100) of
        SearchRaises e \<Rightarrow> (Some e, [])
      | SearchResponse None \<Rightarrow> (None, [])
      | SearchResponse (Some tweets) \<Rightarrow> (None, tweets_loop now tweets []))"

definition aggregate_twitter_content :: "state \<Rightarrow> (nat \<Rightarrow> int) \<Rightarrow> string \<Rightarrow> int \<Rightarrow> task_result" where
  "aggregate_twitter_content st now q n =
     (case twitter_client st of
        None \<Rightarrow> Returned []
      | Some client \<Rightarrow> Returned (snd (twitter_try client now q n)))"

subsection \<open>The summarizer, \<open>generate_summary\<close>\<close>

text \<open>
  What the handlers do to the outside is recorded as a list of events: the endpoint
  function being called with a validated request, and each prompt sent to the language
  model.
\<close>

datatype event = Invoked AggregationRequest | LLM_Call string

definition NL :: string where
  "NL = [CHR 0x0A]"

definition indent :: string where
  "indent = replicate 8 CHR '' ''"

fun py_join :: "string \<Rightarrow> string list \<Rightarrow> string" where
  "py_join sep [] = []"
| "py_join sep [x] = x"
| "py_join sep (x # y # ys) = x @ sep @ py_join sep (y # ys)"

definition item_block :: "ContentItem \<Rightarrow> string" where
  "item_block item =
     ''Source: '' @ source item @ NL @ ''Title: '' @ title item @ NL @ ''Content: '' @ content item"

definition combined_content :: "ContentItem list \<Rightarrow> string" where
  "combined_content xs = py_join (NL @ NL) (map item_block (take 10 xs))"

definition summary_prompt :: "ContentItem list \<Rightarrow> string \<Rightarrow> string" where
  "summary_prompt xs q =
     NL @ indent @ ''Please provide a comprehensive summary of the following content related to the query: ''
        @ [CHR 0x22] @ q @ [CHR 0x22]
     @ NL @ indent
     @ NL @ indent @ ''Content:''
     @ NL @ indent @ combined_content xs
     @ NL @ indent
     @ NL @ indent @ ''Summary should be:''
     @ NL @ indent @ ''- Concise but informative (2-3 paragraphs)''
     @ NL @ indent @ ''- Highlight key insights and trends''
     @ NL @ indent @ ''- Mention different perspectives if present''
     @ NL @ indent @ ''- Be objective and factual''
     @ NL @ indent"

definition generate_summary :: "state \<Rightarrow> ContentItem list \<Rightarrow> string \<Rightarrow> string option \<times> event list" where
  "generate_summary st xs q =
     (case openai_client st of
        None \<Rightarrow> (None, [])
      | Some llm \<Rightarrow>
          if xs = [] then (None, [])
          else (case llm (summary_prompt xs q) of
                  InvokeRaises e \<Rightarrow> (None, [LLM_Call (summary_prompt xs q)])
                | InvokeReturns txt \<Rightarrow> (Some txt, [LLM_Call (summary_prompt xs q)])))"

subsection \<open>The orchestrator, \<open>aggregate_content\<close>\<close>

text \<open>The loop over the gathered results: a list extends \<open>all_items\<close>, an exception adds nothing.\<close>

fun gather_items :: "task_result list \<Rightarrow> ContentItem list \<Rightarrow> ContentItem list" where
  "gather_items [] acc = acc"
| "gather_items (Returned r # rest) acc = gather_items rest (acc @ r)"
| "gather_items (Raised e # rest) acc = gather_items rest acc"

text \<open>
  \<open>all_items.sort(key=lambda x: x.timestamp, reverse=True)\<close>. The sort is stable and
  compares timestamps with \<open><\<close>. A comparison sort has to order every element against
  some other one, so on a list that holds a naive and an aware timestamp one of its
  comparisons raises \<open>TypeError\<close>; on any other list it yields the stable descending order.
\<close>

definition comparable :: "ContentItem list \<Rightarrow> bool" where
  "comparable xs =
     (list_all (\<lambda>x. is_naive (timestamp x)) xs \<or> list_all (\<lambda>x. \<not> is_naive (timestamp x)) xs)"

definition sort_newest_first :: "ContentItem list \<Rightarrow> exn + ContentItem list" where
  "sort_newest_first xs =
     (if comparable xs then Inr (sort_key (\<lambda>x. - instant (timestamp x)) xs) else Inl TypeError)"

datatype http_exception = HTTPException int exn

text \<open>
  The endpoint function. The two fetcher coroutines are module-level names looked up when
  the handler runs, which is how the tests replace them; they are the parameters
  \<open>fetch_web\<close> and \<open>fetch_twitter\<close>. \<open>t0\<close> and \<open>t1\<close> are the clock readings at the
  start and at the assembly of the result. The handler returns what it returns or
  raises, the events it caused, and the module state it leaves.
\<close>

definition aggregate_content ::
  "(string \<Rightarrow> int \<Rightarrow> task_result) \<Rightarrow> (string \<Rightarrow> int \<Rightarrow> task_result) \<Rightarrow> int \<Rightarrow> int \<Rightarrow>
   state \<Rightarrow> AggregationRequest \<Rightarrow> (http_exception + AggregationResult) \<times> event list \<times> state" where
  "aggregate_content fetch_web fetch_twitter t0 t1 st request =
     (let web_on = (''web'' \<in> set (sources request));
          twitter_on = (''twitter'' \<in> set (sources request) \<and> twitter_client st \<noteq> None);
          tasks = (if web_on then [fetch_web (query request) (max_results request)] else [])
                @ (if twitter_on then [fetch_twitter (query request) (max_results request)] else []);
          used = (if web_on then [''web''] else []) @ (if twitter_on then [''twitter''] else []);
          all_items = gather_items tasks []
      in case sort_newest_first all_items of
           Inl e \<Rightarrow> (Inl (HTTPException 500 e), [], st)
         | Inr sorted_items \<Rightarrow>
             (let (summ, evs) = (if summarize request \<and> sorted_items \<noteq> []
                                 then generate_summary st sorted_items (query request)
                                 else (None, []))
              in (Inr \<lparr>res_query = query request,
                       items = sorted_items,
                       summary = summ,
                       total_items = int (length sorted_items),
                       sources_used = used,
                       processing_time = t1 - t0\<rparr>, evs, st)))"

text \<open>The handler wired to the two fetchers of this module.\<close>

record world =
  http_get :: "string \<Rightarrow> http_outcome"
  web_clock :: "nat \<Rightarrow> int"
  twitter_clock :: "nat \<Rightarrow> int"
  start_time :: int
  end_time :: int

definition aggregate_content_live ::
  "world \<Rightarrow> state \<Rightarrow> AggregationRequest \<Rightarrow> (http_exception + AggregationResult) \<times> event list \<times> state" where
  "aggregate_content_live w st request =
     aggregate_content (aggregate_web_content (http_get w) (web_clock w))
                       (aggregate_twitter_content st (twitter_clock w))
                       (start_time w) (end_time w) st request"

subsection \<open>The service boundary\<close>

text \<open>
  The framework validates the JSON body against the field declarations of
  \<open>AggregationRequest\<close> before it calls the endpoint function: \<open>query: str\<close> is
  required, \<open>sources: List[str]\<close>, \<open>max_results: int\<close> and \<open>summarize: bool\<close> have
  defaults, and no field declares a constraint on its value. The validation library is
  not part of this repository. What it does for the two text fields is fixed here:
  pydantic 2 takes a string, and nothing else, for a \<open>str\<close>. An \<open>int\<close> field takes
  a JSON integer as it is and a \<open>bool\<close> field a JSON truth value as it is. Which other
  values the library takes for these two fields (certain strings, values of the other
  type) and what it converts them to is the parameter \<open>conv\<close>: \<open>as_int conv v\<close> is
  the integer validation makes of a supplied value \<open>v\<close> that is no JSON integer, or
  \<open>None\<close> when it refuses \<open>v\<close>. The result of a failed validation is the list of the
  fields that failed.
\<close>

record conversions =
  as_int :: "json \<Rightarrow> int option"
  as_bool :: "json \<Rightarrow> bool option"

definition field_query :: "(string \<times> json) list \<Rightarrow> string + string" where
  "field_query body =
     (case map_of body ''query'' of
        Some (JStr s) \<Rightarrow> Inr s
      | _ \<Rightarrow> Inl ''query'')"

fun json_strs :: "json list \<Rightarrow> string list option" where
  "json_strs [] = Some []"
| "json_strs (JStr s # rest) = (case json_strs rest of None \<Rightarrow> None | Some ss \<Rightarrow> Some (s # ss))"
| "json_strs (_ # rest) = None"

definition field_sources :: "(string \<times> json) list \<Rightarrow> string + string list" where
  "field_sources body =
     (case map_of body ''sources'' of
        None \<Rightarrow> Inr [''web'', ''twitter'']
      | Some (JList xs) \<Rightarrow> (case json_strs xs of None \<Rightarrow> Inl ''sources'' | Some ss \<Rightarrow> Inr ss)
      | Some _ \<Rightarrow> Inl ''sources'')"

definition field_max_results :: "conversions \<Rightarrow> (string \<times> json) list \<Rightarrow> string + int" where
  "field_max_results conv body =
     (case map_of body ''max_results'' of
        None \<Rightarrow> Inr 10
      | Some (JInt n) \<Rightarrow> Inr n
      | Some v \<Rightarrow> (case as_int conv v of Some n \<Rightarrow> Inr n | None \<Rightarrow> Inl ''max_results''))"

definition field_summarize :: "conversions \<Rightarrow> (string \<times> json) list \<Rightarrow> string + bool" where
  "field_summarize conv body =
     (case map_of body ''summarize'' of
        None \<Rightarrow> Inr True
      | Some (JBool b) \<Rightarrow> Inr b
      | Some v \<Rightarrow> (case as_bool conv v of Some b \<Rightarrow> Inr b | None \<Rightarrow> Inl ''summarize''))"

definition field_errors :: "(string + 'a) \<Rightarrow> string list" where
  "field_errors r = (case r of Inl name \<Rightarrow> [name] | Inr _ \<Rightarrow> [])"

definition validate_request :: "conversions \<Rightarrow> json \<Rightarrow> string list + AggregationRequest" where
  "validate_request conv body =
     (case body of
        JDict kvs \<Rightarrow>
          (case (field_query kvs, field_sources kvs, field_max_results conv kvs, field_summarize conv kvs) of
             (Inr q, Inr srcs, Inr n, Inr b) \<Rightarrow>
               Inr \<lparr>query = q, sources = srcs, max_results = n, summarize = b\<rparr>
           | (rq, rs, rn, rb) \<Rightarrow>
               Inl (field_errors rq @ field_errors rs @ field_errors rn @ field_errors rb))
      | _ \<Rightarrow> Inl [''body''])"

datatype response =
    OK_200 AggregationResult
  | Unprocessable_422 "string list"
  | Error_Response int exn

fun status_code :: "response \<Rightarrow> int" where
  "status_code (OK_200 r) = 200"
| "status_code (Unprocessable_422 errs) = 422"
| "status_code (Error_Response code e) = code"

text \<open>\<open>POST /aggregate\<close>: validation, then the endpoint function.\<close>

definition post_aggregate ::
  "conversions \<Rightarrow> (string \<Rightarrow> int \<Rightarrow> task_result) \<Rightarrow> (string \<Rightarrow> int \<Rightarrow> task_result) \<Rightarrow> int \<Rightarrow> int \<Rightarrow>
   state \<Rightarrow> json \<Rightarrow> response \<times> event list \<times> state" where
  "post_aggregate conv fetch_web fetch_twitter t0 t1 st body =
     (case validate_request conv body of
        Inl errs \<Rightarrow> (Unprocessable_422 errs, [], st)
      | Inr request \<Rightarrow>
          (case aggregate_content fetch_web fetch_twitter t0 t1 st request of
             (Inl (HTTPException code e), evs, st') \<Rightarrow> (Error_Response code e, Invoked request # evs, st')
           | (Inr res, evs, st') \<Rightarrow> (OK_200 res, Invoked request # evs, st')))"

subsection \<open>Start-up and the status endpoints\<close>

text \<open>
  \<open>initialize_services\<close> reads two environment variables and builds a client for
  each one that is set and not empty. Building a client may raise; the \<open>try\<close> block
  around both then ends, and what was assigned before stays assigned.
\<close>

record environ =
  twitter_bearer_token :: "string option"
  openai_api_key :: "string option"
  make_twitter :: "string \<Rightarrow> exn + twitter_api"
  make_openai :: "string \<Rightarrow> exn + llm_api"

definition init_openai :: "environ \<Rightarrow> state \<Rightarrow> state" where
  "init_openai env st =
     (case openai_api_key env of
        None \<Rightarrow> st
      | Some key \<Rightarrow>
          if key = [] then st
          else (case make_openai env key of
                  Inl e \<Rightarrow> st
                | Inr llm \<Rightarrow> st\<lparr>openai_client := Some llm\<rparr>))"

definition initialize_services :: "environ \<Rightarrow> state \<Rightarrow> state" where
  "initialize_services env st =
     (case twitter_bearer_token env of
        None \<Rightarrow> init_openai env st
      | Some token \<Rightarrow>
          if token = [] then init_openai env st
          else (case make_twitter env token of
                  Inl e \<Rightarrow> st
                | Inr client \<Rightarrow> init_openai env (st\<lparr>twitter_client := Some client\<rparr>)))"

text \<open>The module as loaded: no clients, no tasks.\<close>

definition module_init :: state where
  "module_init = \<lparr>twitter_client = None, openai_client = None, aggregation_tasks = []\<rparr>"

record HealthStatus =
  health_status :: string
  health_timestamp :: datetime
  health_services :: "(string \<times> string) list"
  version :: string

definition availability :: "bool \<Rightarrow> string" where
  "availability b = (if b then ''available'' else ''unavailable'')"

definition health_check :: "int \<Rightarrow> state \<Rightarrow> HealthStatus \<times> state" where
  "health_check now st =
     (\<lparr>health_status = ''healthy'',
       health_timestamp = Naive now,
       health_services = [(''twitter'', availability (twitter_client st \<noteq> None)),
                          (''openai'', availability (openai_client st \<noteq> None)),
                          (''web_aggregation'', ''available'')],
       version = ''1.0.0''\<rparr>, st)"

text \<open>\<open>GET /status\<close>; the timestamp is kept as the clock reading, not as its ISO text.\<close>

record StatusReport =
  service :: string
  status :: string
  status_timestamp :: datetime
  active_tasks :: int
  services :: "(string \<times> bool) list"

definition get_status :: "int \<Rightarrow> state \<Rightarrow> StatusReport \<times> state" where
  "get_status now st =
     (\<lparr>service = ''AstraMesh QVic Reforge Chalice'',
       status = ''running'',
       status_timestamp = Naive now,
       active_tasks = int (length (aggregation_tasks st)),
       services = [(''twitter'', twitter_client st \<noteq> None), (''openai'', openai_client st \<noteq> None)]\<rparr>, st)"

text \<open>
  \<open>GET /\<close> serves the frontend file, or a fixed inline page when opening the file
  raises \<open>FileNotFoundError\<close>. Any other failure of \<open>open\<close> or \<open>read\<close> is not
  caught and leaves the endpoint function as an exception.
\<close>

datatype file_read = FileContent string | FileNotFound | ReadRaises exn

datatype page = FrontendFile string | InlinePage

definition root :: "file_read \<Rightarrow> state \<Rightarrow> (exn + page) \<times> state" where
  "root file st =
     (case file of
        FileContent html \<Rightarrow> (Inr (FrontendFile html), st)
      | FileNotFound \<Rightarrow> (Inr InlinePage, st)
      | ReadRaises e \<Rightarrow> (Inl e, st))"

text \<open>
  One step of the process: start-up, or one request served by one of the four routes.
  The fetchers of \<open>POST /aggregate\<close> are arbitrary, so the steps cover the handler
  wired to this module's fetchers as well as to replacements.
\<close>

inductive step :: "state \<Rightarrow> state \<Rightarrow> bool" where
  startup: "step st (initialize_services env st)"
| serve_root: "step st (snd (root file st))"
| serve_health: "step st (snd (health_check now st))"
| serve_status: "step st (snd (get_status now st))"
| serve_aggregate: "step st (snd (snd (post_aggregate conv fetch_web fetch_twitter t0 t1 st body)))"

inductive reachable :: "state \<Rightarrow> bool" where
  loaded: "reachable module_init"
| after: "reachable st \<Longrightarrow> step st st' \<Longrightarrow> reachable st'"

subsection \<open>Concrete collaborators and inputs\<close>

text \<open>Stand-ins used to run the definitions on concrete inputs.\<close>

definition fixed_clock :: "int \<Rightarrow> nat \<Rightarrow> int" where
  "fixed_clock t k = t"

definition http_replies :: "http_outcome \<Rightarrow> string \<Rightarrow> http_outcome" where
  "http_replies r u = r"

definition fixed_fetch :: "task_result \<Rightarrow> string \<Rightarrow> int \<Rightarrow> task_result" where
  "fixed_fetch r q n = r"

definition twitter_replies :: "search_outcome \<Rightarrow> twitter_api" where
  "twitter_replies r q n = r"

definition llm_replies :: "llm_outcome \<Rightarrow> llm_api" where
  "llm_replies r p = r"

text \<open>
  Conversions as pydantic 2 makes them of JSON input in its default mode, for the values
  met most often: a truth value as 0 or 1, the integers 0 and 1 as truth values, a plain
  decimal numeral as its integer, and the usual truth words. They stand in for the
  parameter \<open>conv\<close> where an input is run.
\<close>

fun decimal_nat :: "string \<Rightarrow> nat \<Rightarrow> nat option" where
  "decimal_nat [] acc = Some acc"
| "decimal_nat (c # cs) acc =
     (if 48 \<le> (of_char c :: nat) \<and> (of_char c :: nat) \<le> 57
      then decimal_nat cs (10 * acc + ((of_char c :: nat) - 48))
      else None)"

definition decimal_int :: "string \<Rightarrow> int option" where
  "decimal_int s =
     (case s of
        [] \<Rightarrow> None
      | c # cs \<Rightarrow>
          if c = CHR ''-''
          then (if cs = [] then None else map_option (\<lambda>n. - int n) (decimal_nat cs 0))
          else map_option int (decimal_nat s 0))"

fun lax_int :: "json \<Rightarrow> int option" where
  "lax_int (JInt n) = Some n"
| "lax_int (JBool b) = Some (if b then 1 else 0)"
| "lax_int (JStr s) = decimal_int s"
| "lax_int _ = None"

fun lax_bool :: "json \<Rightarrow> bool option" where
  "lax_bool (JBool b) = Some b"
| "lax_bool (JInt n) = (if n = 0 then Some False else if n = 1 then Some True else None)"
| "lax_bool (JStr s) =
     (if map to_lower s \<in> set [''1'', ''true'', ''t'', ''yes'', ''y'', ''on''] then Some True
      else if map to_lower s \<in> set [''0'', ''false'', ''f'', ''no'', ''n'', ''off''] then Some False
      else None)"
| "lax_bool _ = None"

definition lax :: conversions where
  "lax = \<lparr>as_int = lax_int, as_bool = lax_bool\<rparr>"

definition sample_item :: "string \<Rightarrow> datetime \<Rightarrow> ContentItem" where
  "sample_item src t =
     \<lparr>title = ''T'', content = ''C'', source = src, url = None, timestamp = t, metadata = []\<rparr>"

definition sample_tweet :: "int \<Rightarrow> datetime option \<Rightarrow> tweet" where
  "sample_tweet i t =
     \<lparr>tweet_id = i, tweet_text = ''hi'', author_id = Some 7, created_at = t, public_metrics = JNull\<rparr>"

definition sample_request :: "string list \<Rightarrow> int \<Rightarrow> bool \<Rightarrow> AggregationRequest" where
  "sample_request srcs n b = \<lparr>query = ''rust'', sources = srcs, max_results = n, summarize = b\<rparr>"

definition with_twitter :: "search_outcome \<Rightarrow> state" where
  "with_twitter r = module_init\<lparr>twitter_client := Some (twitter_replies r)\<rparr>"

definition with_llm :: "llm_outcome \<Rightarrow> state" where
  "with_llm r = module_init\<lparr>openai_client := Some (llm_replies r)\<rparr>"

text \<open>A provider answer with one related topic and an abstract.\<close>

definition topic_and_abstract :: json where
  "topic_and_abstract =
     JDict [(''RelatedTopics'', JList [JDict [(''Text'', JStr ''a''), (''FirstURL'', JStr ''https://e.x/rust-lang'')]]),
            (''Abstract'', JStr ''abs''),
            (''Heading'', JStr ''Rust''),
            (''AbstractURL'', JStr ''https://e.x/abs'')]"

text \<open>A provider answer whose second related topic has \<open>null\<close> for its \<open>FirstURL\<close>.\<close>

definition second_topic_malformed :: json where
  "second_topic_malformed =
     JDict [(''RelatedTopics'',
             JList [JDict [(''Text'', JStr ''a''), (''FirstURL'', JStr ''https://e.x/rust-lang'')],
                    JDict [(''Text'', JStr ''b''), (''FirstURL'', JNull)]])]"

text \<open>Two items from the web fetcher, the older one first, and what the handler answers.\<close>

definition sample_result :: AggregationResult where
  "sample_result =
     \<lparr>res_query = ''rust'',
      items = [sample_item ''web'' (Naive 5), sample_item ''web'' (Naive 1)],
      summary = None, total_items = 2, sources_used = [''web''], processing_time = 1\<rparr>"

text \<open>One item, a summary asked for, and a language model that fails.\<close>

definition unsummarized_result :: AggregationResult where
  "unsummarized_result =
     \<lparr>res_query = ''rust'', items = [sample_item ''web'' (Naive 1)], summary = None,
      total_items = 1, sources_used = [''web''], processing_time = 1\<rparr>"

text \<open>Two tweets with the \<open>created_at\<close> the code asks for.\<close>

definition aware_tweets :: "tweet list" where
  "aware_tweets = [sample_tweet 1 (Some (Aware 5)), sample_tweet 2 (Some (Aware 8))]"

text \<open>A request body that names only Twitter and a provider this module does not know.\<close>

definition no_web_body :: json where
  "no_web_body = JDict [(''query'', JStr ''rust''), (''sources'', JList [JStr ''twitter'', JStr ''mastodon''])]"

text \<open>A request body with nothing but the query.\<close>

definition query_only_body :: json where
  "query_only_body = JDict [(''query'', JStr ''rust'')]"

section \<open>Properties\<close>

subsection \<open>The sort\<close>

lemma sort_newest_first_Inr:
  "sort_newest_first xs = Inr ys \<Longrightarrow> comparable xs \<and> ys = sort_key (\<lambda>x. - instant (timestamp x)) xs"
  by (auto simp: sort_newest_first_def split: if_splits)

lemma comparable_same_kind:
  "comparable xs \<Longrightarrow> x \<in> set xs \<Longrightarrow> y \<in> set xs \<Longrightarrow> is_naive (timestamp x) = is_naive (timestamp y)"
  by (auto simp: comparable_def list_all_iff)

lemma sorted_key_adjacent:
  assumes "Suc i < length xs"
  shows "instant (timestamp (sort_key (\<lambda>x. - instant (timestamp x)) xs ! Suc i))
       \<le> instant (timestamp (sort_key (\<lambda>x. - instant (timestamp x)) xs ! i))"
proof -
  let ?k = "\<lambda>x. - instant (timestamp x)"
  let ?ys = "sort_key ?k xs"
  have len: "Suc i < length (map ?k ?ys)" using assms by simp
  have "sorted (map ?k ?ys)" by (rule sorted_sort_key)
  then have "map ?k ?ys ! i \<le> map ?k ?ys ! Suc i"
    using len by (simp add: sorted_iff_nth_mono del: length_map)
  then show ?thesis using assms by simp
qed

lemma sort_newest_first_adjacent:
  assumes "sort_newest_first xs = Inr ys" and "Suc i < length ys"
  shows "dt_ge (timestamp (ys ! i)) (timestamp (ys ! Suc i))"
proof -
  from assms(1) have cmp: "comparable xs" and ys: "ys = sort_key (\<lambda>x. - instant (timestamp x)) xs"
    using sort_newest_first_Inr by blast+
  from assms(2) ys have len: "Suc i < length xs" by simp
  have "ys ! i \<in> set ys" "ys ! Suc i \<in> set ys" using assms(2) by simp_all
  then have "ys ! i \<in> set xs" "ys ! Suc i \<in> set xs" using ys by simp_all
  with cmp have kind: "is_naive (timestamp (ys ! i)) = is_naive (timestamp (ys ! Suc i))"
    by (rule comparable_same_kind)
  from sorted_key_adjacent [OF len] ys
  have "instant (timestamp (ys ! Suc i)) \<le> instant (timestamp (ys ! i))" by simp
  with kind show ?thesis by (simp add: dt_ge_def dt_less_def)
qed

subsection \<open>What a returning handler has done\<close>

lemma aggregate_content_returns:
  assumes "aggregate_content fw ft t0 t1 st request = (Inr res, evs, st')"
  shows "\<exists>all_items. sort_newest_first all_items = Inr (items res)"
    and "total_items res = int (length (items res))"
    and "st' = st"
    and "(summary res, evs) = (if summarize request \<and> items res \<noteq> []
                               then generate_summary st (items res) (query request) else (None, []))"
  using assms
  by (auto simp: aggregate_content_def Let_def split: sum.splits prod.splits if_splits)

lemma sample_run:
  "aggregate_content
     (fixed_fetch (Returned [sample_item ''web'' (Naive 1), sample_item ''web'' (Naive 5)]))
     (fixed_fetch (Returned [])) 0 1 module_init (sample_request [''web''] 5 False)
   = (Inr sample_result, [], module_init)"
  by (simp add: aggregate_content_def sort_newest_first_def comparable_def fixed_fetch_def
      sample_request_def sample_item_def module_init_def sample_result_def)

text \<open>
  C1. Whenever the handler returns an \<open>AggregationResult\<close>, its \<open>items\<close> are sorted by
  timestamp, newest first: each item's timestamp is \<open>>=\<close> that of the item after it.
\<close>

theorem C1_items_sorted_newest_first:
  assumes "aggregate_content fetch_web fetch_twitter t_start t_end st request = (Inr res, evs, st')"
    and "Suc i < length (items res)"
  shows "dt_ge (timestamp (items res ! i)) (timestamp (items res ! Suc i))"
proof -
  from assms(1) obtain all_items where "sort_newest_first all_items = Inr (items res)"
    using aggregate_content_returns(1) by blast
  then show ?thesis using assms(2) by (rule sort_newest_first_adjacent)
qed

theorem C1_witness:
  "aggregate_content
     (fixed_fetch (Returned [sample_item ''web'' (Naive 1), sample_item ''web'' (Naive 5)]))
     (fixed_fetch (Returned [])) 0 1 module_init (sample_request [''web''] 5 False)
   = (Inr sample_result, [], module_init)
   \<and> Suc 0 < length (items sample_result)
   \<and> dt_ge (timestamp (items sample_result ! 0)) (timestamp (items sample_result ! Suc 0))"
proof -
  have len: "Suc 0 < length (items sample_result)" by (simp add: sample_result_def)
  from C1_items_sorted_newest_first [OF sample_run len] sample_run len show ?thesis by simp
qed

text \<open>
  C9. Whenever the handler returns an \<open>AggregationResult\<close>, its \<open>total_items\<close> is the
  length of its \<open>items\<close>.
\<close>

theorem C9_total_items_is_length:
  assumes "aggregate_content fetch_web fetch_twitter t_start t_end st request = (Inr res, evs, st')"
  shows "total_items res = int (length (items res))"
  using assms by (rule aggregate_content_returns(2))

theorem C9_witness:
  "aggregate_content
     (fixed_fetch (Returned [sample_item ''web'' (Naive 1), sample_item ''web'' (Naive 5)]))
     (fixed_fetch (Returned [])) 0 1 module_init (sample_request [''web''] 5 False)
   = (Inr sample_result, [], module_init)
   \<and> total_items sample_result = int (length (items sample_result))"
  using C9_total_items_is_length [OF sample_run] sample_run by simp

subsection \<open>Requests that schedule no fetcher\<close>

lemma aggregate_content_nothing_scheduled:
  assumes "''web'' \<notin> set (sources request)"
    and "''twitter'' \<in> set (sources request) \<longrightarrow> twitter_client st = None"
  shows "aggregate_content fetch_web fetch_twitter t_start t_end st request
       = (Inr \<lparr>res_query = query request, items = [], summary = None, total_items = 0,
               sources_used = [], processing_time = t_end - t_start\<rparr>, [], st)"
  using assms
  by (auto simp: aggregate_content_def sort_newest_first_def comparable_def)

lemma no_web_body_valid:
  "validate_request lax no_web_body = Inr (sample_request [''twitter'', ''mastodon''] 10 True)"
  by (simp add: no_web_body_def lax_def validate_request_def field_query_def field_sources_def
      field_max_results_def field_summarize_def sample_request_def)

text \<open>
  C6. A request whose \<open>sources\<close> name no provider with an available fetcher (not
  \<open>"web"\<close>, and \<open>"twitter"\<close> only while no Twitter client is configured) is answered
  with 200 and a result with no items, \<open>total_items = 0\<close> and no \<open>sources_used\<close>.
\<close>

theorem C6_only_unavailable_sources:
  assumes "validate_request conv body = Inr request"
    and "''web'' \<notin> set (sources request)"
    and "''twitter'' \<in> set (sources request) \<longrightarrow> twitter_client st = None"
  shows "post_aggregate conv fetch_web fetch_twitter t_start t_end st body
       = (OK_200 \<lparr>res_query = query request, items = [], summary = None, total_items = 0,
                  sources_used = [], processing_time = t_end - t_start\<rparr>, [Invoked request], st)"
  using assms(1) aggregate_content_nothing_scheduled [OF assms(2,3)]
  by (simp add: post_aggregate_def)

theorem C6_witness:
  "validate_request lax no_web_body = Inr (sample_request [''twitter'', ''mastodon''] 10 True)
   \<and> ''web'' \<notin> set (sources (sample_request [''twitter'', ''mastodon''] 10 True))
   \<and> twitter_client module_init = None
   \<and> post_aggregate lax (fixed_fetch (Raised NetworkError)) (fixed_fetch (Raised NetworkError)) 3 8
        module_init no_web_body
     = (OK_200 \<lparr>res_query = ''rust'', items = [], summary = None, total_items = 0,
                sources_used = [], processing_time = 5\<rparr>,
        [Invoked (sample_request [''twitter'', ''mastodon''] 10 True)], module_init)"
proof -
  have a: "''web'' \<notin> set (sources (sample_request [''twitter'', ''mastodon''] 10 True))"
    by (simp add: sample_request_def)
  have b: "twitter_client module_init = None"
    by (simp add: module_init_def)
  then have c: "''twitter'' \<in> set (sources (sample_request [''twitter'', ''mastodon''] 10 True))
      \<longrightarrow> twitter_client module_init = None"
    by simp
  from C6_only_unavailable_sources [OF no_web_body_valid a c, where t_start = 3 and t_end = 8
      and fetch_web = "fixed_fetch (Raised NetworkError)"
      and fetch_twitter = "fixed_fetch (Raised NetworkError)"]
  have "post_aggregate lax (fixed_fetch (Raised NetworkError)) (fixed_fetch (Raised NetworkError)) 3 8
        module_init no_web_body
     = (OK_200 \<lparr>res_query = ''rust'', items = [], summary = None, total_items = 0,
                sources_used = [], processing_time = 5\<rparr>,
        [Invoked (sample_request [''twitter'', ''mastodon''] 10 True)], module_init)"
    by (simp add: sample_request_def)
  with no_web_body_valid a b show ?thesis by simp
qed

subsection \<open>The summary\<close>

lemma generate_summary_None:
  "openai_client st = None \<Longrightarrow> generate_summary st xs q = (None, [])"
  "generate_summary st [] q = (None, [])"
  "openai_client st = Some llm \<Longrightarrow> llm (summary_prompt xs q) = InvokeRaises e \<Longrightarrow>
     fst (generate_summary st xs q) = None"
  by (auto simp: generate_summary_def split: option.splits)

lemma llm_failure_run:
  "aggregate_content (fixed_fetch (Returned [sample_item ''web'' (Naive 1)])) (fixed_fetch (Returned []))
     0 1 (with_llm (InvokeRaises ProviderError)) (sample_request [''web''] 5 True)
   = (Inr unsummarized_result,
      [LLM_Call (summary_prompt [sample_item ''web'' (Naive 1)] ''rust'')],
      with_llm (InvokeRaises ProviderError))"
  by (simp add: aggregate_content_def sort_newest_first_def comparable_def fixed_fetch_def
      sample_request_def with_llm_def module_init_def generate_summary_def llm_replies_def Let_def
      unsummarized_result_def)

text \<open>
  C5. In a returned result the \<open>summary\<close> is \<open>None\<close> whenever \<open>summarize\<close> is false,
  or the merged items are empty, or no language-model client is configured, or the call
  of the language model raises. When \<open>summarize\<close> is false or the merged items are empty
  (and also when no client is configured) the handler sends no prompt to the language
  model: its list of events is empty.
\<close>

theorem C5_summary_absent:
  assumes "aggregate_content fetch_web fetch_twitter t_start t_end st request = (Inr res, evs, st')"
  shows "(\<not> summarize request \<longrightarrow> summary res = None \<and> evs = [])
       \<and> (items res = [] \<longrightarrow> summary res = None \<and> evs = [])
       \<and> (openai_client st = None \<longrightarrow> summary res = None \<and> evs = [])
       \<and> (\<forall>llm e. openai_client st = Some llm
              \<and> llm (summary_prompt (items res) (query request)) = InvokeRaises e
            \<longrightarrow> summary res = None)"
proof -
  note eq = aggregate_content_returns(4) [OF assms]
  have a: "\<not> summarize request \<longrightarrow> summary res = None \<and> evs = []"
    using eq by (auto split: if_splits)
  have b: "items res = [] \<longrightarrow> summary res = None \<and> evs = []"
    using eq by (auto split: if_splits)
  have c: "openai_client st = None \<longrightarrow> summary res = None \<and> evs = []"
    using eq by (auto simp: generate_summary_None(1) split: if_splits)
  have d: "\<forall>llm e. openai_client st = Some llm
              \<and> llm (summary_prompt (items res) (query request)) = InvokeRaises e
            \<longrightarrow> summary res = None"
  proof (intro allI impI)
    fix llm e
    assume h: "openai_client st = Some llm
              \<and> llm (summary_prompt (items res) (query request)) = InvokeRaises e"
    then have "fst (generate_summary st (items res) (query request)) = None"
      by (simp add: generate_summary_None(3))
    with eq show "summary res = None"
      by (cases "summarize request \<and> items res \<noteq> []") (auto dest: arg_cong [where f = fst])
  qed
  from a b c d show ?thesis by blast
qed

theorem C5_witness:
  "openai_client (with_llm (InvokeRaises ProviderError)) = Some (llm_replies (InvokeRaises ProviderError))
   \<and> llm_replies (InvokeRaises ProviderError)
        (summary_prompt (items unsummarized_result) (query (sample_request [''web''] 5 True)))
       = InvokeRaises ProviderError
   \<and> summary unsummarized_result = None
   \<and> \<not> summarize (sample_request [''web''] 5 False)
   \<and> summary sample_result = None"
  using C5_summary_absent [OF llm_failure_run] C5_summary_absent [OF sample_run]
  by (simp add: with_llm_def module_init_def llm_replies_def sample_request_def)

subsection \<open>The fetchers\<close>

lemma web_topics_loop_length:
  "length (snd (web_topics_loop now ts acc)) \<le> length acc + length ts"
proof (induction ts arbitrary: acc)
  case Nil
  show ?case by simp
next
  case (Cons t ts)
  show ?case
  proof (cases "web_topic_item (now (length acc)) t")
    case (Inl e)
    then show ?thesis by simp
  next
    case (Inr r)
    show ?thesis
    proof (cases r)
      case None
      with Inr Cons.IH [of acc] show ?thesis by simp
    next
      case (Some item)
      with Inr Cons.IH [of "acc @ [item]"] show ?thesis by simp
    qed
  qed
qed

lemma sliced_topics_length:
  "0 \<le> n \<Longrightarrow> sliced_topics v n = Inr ts \<Longrightarrow> length ts \<le> nat n"
  by (auto simp: sliced_topics_def py_slice_to_def split: json.splits)

lemma web_try_length:
  assumes "0 \<le> n"
  shows "length (snd (web_try http now q n)) \<le> nat n + 1"
proof -
  have loop: "length (snd (web_topics_loop now ts [])) \<le> nat n"
    if "sliced_topics v n = Inr ts" for v ts
    using web_topics_loop_length [of now ts "[]"] sliced_topics_length [OF assms that] by simp
  show ?thesis
    unfolding web_try_def
    by (auto split: http_outcome.splits sum.splits json.splits prod.splits option.splits
        dest!: loop) 
qed

text \<open>Every item of the web fetcher carries a naive timestamp, that of \<open>datetime.now()\<close>.\<close>

lemma web_topic_item_naive:
  "web_topic_item t topic = Inr (Some item) \<Longrightarrow> is_naive (timestamp item)"
  by (auto simp: web_topic_item_def split: json.splits option.splits)

lemma web_abstract_item_naive:
  "web_abstract_item t q data = Inr item \<Longrightarrow> is_naive (timestamp item)"
  by (auto simp: web_abstract_item_def split: json.splits prod.splits)

lemma web_topics_loop_naive:
  "\<forall>x \<in> set acc. is_naive (timestamp x) \<Longrightarrow>
   \<forall>x \<in> set (snd (web_topics_loop now ts acc)). is_naive (timestamp x)"
proof (induction ts arbitrary: acc)
  case Nil
  then show ?case by simp
next
  case (Cons t ts)
  show ?case
  proof (cases "web_topic_item (now (length acc)) t")
    case (Inl e)
    with Cons.prems show ?thesis by simp
  next
    case (Inr r)
    show ?thesis
    proof (cases r)
      case None
      with Inr Cons.IH [OF Cons.prems] show ?thesis by simp
    next
      case (Some item)
      with Inr have "is_naive (timestamp item)" by (simp add: web_topic_item_naive)
      with Cons.prems have "\<forall>x \<in> set (acc @ [item]). is_naive (timestamp x)" by simp
      from Cons.IH [OF this] Inr Some show ?thesis by simp
    qed
  qed
qed

lemma web_items_naive:
  "\<forall>x \<in> set (snd (web_try http now q n)). is_naive (timestamp x)"
proof -
  have loop: "is_naive (timestamp x)"
    if "web_topics_loop now ts [] = (r, xs)" and "x \<in> set xs" for ts r xs x
    using web_topics_loop_naive [of "[]" now ts] that by auto
  show ?thesis
    unfolding web_try_def
    by (auto split: http_outcome.splits sum.splits json.splits prod.splits option.splits
        dest: web_abstract_item_naive loop)
qed

lemma web_items_comparable: "comparable (snd (web_try http now q n))"
  using web_items_naive [of http now q n] by (simp add: comparable_def list_all_iff)

lemma tweets_loop_aware:
  assumes "\<forall>x \<in> set acc. \<not> is_naive (timestamp x)"
    and "\<forall>tw \<in> set ts. \<exists>t. created_at tw = Some (Aware t)"
  shows "\<forall>x \<in> set (tweets_loop now ts acc). \<not> is_naive (timestamp x)"
  using assms
proof (induction ts arbitrary: acc)
  case Nil
  then show ?case by simp
next
  case (Cons tw ts)
  from Cons.prems(2) obtain t where "created_at tw = Some (Aware t)" by auto
  then have "\<not> is_naive (timestamp (tweet_item (now (length acc)) tw))"
    by (simp add: tweet_item_def)
  with Cons.prems(1)
  have acc': "\<forall>x \<in> set (acc @ [tweet_item (now (length acc)) tw]). \<not> is_naive (timestamp x)"
    by simp
  from Cons.prems(2) have rest: "\<forall>tw \<in> set ts. \<exists>t. created_at tw = Some (Aware t)"
    by simp
  from Cons.IH [OF acc' rest] show ?case by simp
qed

text \<open>
  The handler wired to this module's fetchers, both answering: the web items are naive,
  the tweets carry the aware \<open>created_at\<close> of the provider, and the sort raises.
\<close>

lemma live_web_and_twitter_answer_500:
  "fst (aggregate_content_live
          \<lparr>http_get = http_replies (GetResponse 200 (Inr topic_and_abstract)),
           web_clock = fixed_clock 0, twitter_clock = fixed_clock 0, start_time = 0, end_time = 1\<rparr>
          (with_twitter (SearchResponse (Some aware_tweets)))
          (sample_request [''web'', ''twitter''] 10 False))
   = Inl (HTTPException 500 TypeError)"
  by code_simp

lemma tweets_loop_length: "length (tweets_loop now ts acc) = length acc + length ts"
  by (induction ts arbitrary: acc) auto

text \<open>
  The Twitter fetcher passes \<open>min(max_results, 100)\<close> to the provider and returns one
  item for every tweet of the answer: the cap on its result is the provider's.
\<close>

lemma twitter_items_are_provider_items:
  assumes "twitter_client st = Some client" and "client q (min n 100) = SearchResponse (Some ts)"
  shows "aggregate_twitter_content st now q n = Returned (tweets_loop now ts [])"
    and "length (tweets_loop now ts []) = length ts"
  using assms by (simp_all add: aggregate_twitter_content_def twitter_try_def tweets_loop_length)

text \<open>
  C3. Each fetcher is to return at most \<open>max_results\<close> items. The web fetcher cuts the
  related topics to \<open>max_results\<close> and then appends the abstract: with
  \<open>max_results = 1\<close>, an answer with one related topic and an abstract gives two items.
  (\<open>web_try_length\<close> above is the bound the code keeps: \<open>max_results + 1\<close>.)
\<close>

theorem C3_web_fetcher_exceeds_cap:
  "aggregate_web_content (http_replies (GetResponse 200 (Inr topic_and_abstract))) (fixed_clock 0) ''rust'' 1
   = Returned
       [\<lparr>title = ''Rust Lang'', content = ''a'', source = ''web'',
         url = Some ''https://e.x/rust-lang'', timestamp = Naive 0,
         metadata = [(''search_engine'', JStr ''duckduckgo'')]\<rparr>,
        \<lparr>title = ''Rust'', content = ''abs'', source = ''web'',
         url = Some ''https://e.x/abs'', timestamp = Naive 0,
         metadata = [(''type'', JStr ''abstract''), (''search_engine'', JStr ''duckduckgo'')]\<rparr>]"
  by code_simp


text \<open>
  An answer whose second related topic is malformed: the \<open>try\<close> block ends with
  \<open>AttributeError\<close>, and the fetcher returns the item built from the first topic.
\<close>

theorem C4_counterexample:
  "web_try (http_replies (GetResponse 200 (Inr second_topic_malformed))) (fixed_clock 0) ''rust'' 5
   = (Some AttributeError,
      [\<lparr>title = ''Rust Lang'', content = ''a'', source = ''web'',
        url = Some ''https://e.x/rust-lang'', timestamp = Naive 0,
        metadata = [(''search_engine'', JStr ''duckduckgo'')]\<rparr>])
   \<and> aggregate_web_content (http_replies (GetResponse 200 (Inr second_topic_malformed))) (fixed_clock 0) ''rust'' 5
   = Returned
      [\<lparr>title = ''Rust Lang'', content = ''a'', source = ''web'',
        url = Some ''https://e.x/rust-lang'', timestamp = Naive 0,
        metadata = [(''search_engine'', JStr ''duckduckgo'')]\<rparr>]"
  by code_simp

text \<open>
  C4, amended. Neither fetcher raises to its caller. The result is the empty list when
  the request to the provider raises, when the body cannot be decoded or is no object,
  when \<open>RelatedTopics\<close> cannot be sliced, when no Twitter client is configured, and
  when the Twitter search raises. (A failure met while the items are built leaves the
  items built before it in the result.)
\<close>

theorem C4_fetchers_contain_failures:
  "(\<forall>e. aggregate_web_content http now q n \<noteq> Raised e)
   \<and> (\<forall>e. aggregate_twitter_content st now q n \<noteq> Raised e)
   \<and> (\<forall>e. http (search_url q) = GetRaises e \<longrightarrow> aggregate_web_content http now q n = Returned [])
   \<and> (\<forall>e. http (search_url q) = GetResponse 200 (Inl e) \<longrightarrow> aggregate_web_content http now q n = Returned [])
   \<and> (\<forall>v. http (search_url q) = GetResponse 200 (Inr v) \<and> (\<forall>d. v \<noteq> JDict d)
          \<longrightarrow> aggregate_web_content http now q n = Returned [])
   \<and> (\<forall>d e. http (search_url q) = GetResponse 200 (Inr (JDict d))
             \<and> sliced_topics (dict_get d ''RelatedTopics'' (JList [])) n = Inl e
          \<longrightarrow> aggregate_web_content http now q n = Returned [])
   \<and> (twitter_client st = None \<longrightarrow> aggregate_twitter_content st now q n = Returned [])
   \<and> (\<forall>client e. twitter_client st = Some client \<and> fst (twitter_try client now q n) = Some e
          \<longrightarrow> aggregate_twitter_content st now q n = Returned [])"
proof -
  have a: "\<forall>e. aggregate_web_content http now q n \<noteq> Raised e"
    by (simp add: aggregate_web_content_def)
  have b: "\<forall>e. aggregate_twitter_content st now q n \<noteq> Raised e"
    by (simp add: aggregate_twitter_content_def split: option.splits)
  have c: "\<forall>e. http (search_url q) = GetRaises e \<longrightarrow> aggregate_web_content http now q n = Returned []"
    by (simp add: aggregate_web_content_def web_try_def)
  have d: "\<forall>e. http (search_url q) = GetResponse 200 (Inl e) \<longrightarrow> aggregate_web_content http now q n = Returned []"
    by (simp add: aggregate_web_content_def web_try_def)
  have e: "\<forall>v. http (search_url q) = GetResponse 200 (Inr v) \<and> (\<forall>d. v \<noteq> JDict d)
          \<longrightarrow> aggregate_web_content http now q n = Returned []"
    by (auto simp: aggregate_web_content_def web_try_def split: json.splits)
  have f: "\<forall>d e. http (search_url q) = GetResponse 200 (Inr (JDict d))
             \<and> sliced_topics (dict_get d ''RelatedTopics'' (JList [])) n = Inl e
          \<longrightarrow> aggregate_web_content http now q n = Returned []"
    by (simp add: aggregate_web_content_def web_try_def)
  have g: "twitter_client st = None \<longrightarrow> aggregate_twitter_content st now q n = Returned []"
    by (simp add: aggregate_twitter_content_def)
  have h: "\<forall>client e. twitter_client st = Some client \<and> fst (twitter_try client now q n) = Some e
          \<longrightarrow> aggregate_twitter_content st now q n = Returned []"
    by (auto simp: aggregate_twitter_content_def twitter_try_def split: search_outcome.splits option.splits)
  from a b c d e f g h show ?thesis by blast
qed

theorem C4_witness:
  "http_replies (GetRaises NetworkError) (search_url ''rust'') = GetRaises NetworkError
   \<and> aggregate_web_content (http_replies (GetRaises NetworkError)) (fixed_clock 0) ''rust'' 5 = Returned []
   \<and> twitter_client module_init = None
   \<and> aggregate_twitter_content module_init (fixed_clock 0) ''rust'' 5 = Returned []"
  using C4_fetchers_contain_failures [of "http_replies (GetRaises NetworkError)" "fixed_clock 0" "''rust''" 5 module_init]
  by (simp add: http_replies_def module_init_def)


subsection \<open>One fetcher raises, the other returns\<close>

lemma aggregate_content_one_fails:
  assumes "''web'' \<in> set (sources request)" and "''twitter'' \<in> set (sources request)"
    and "twitter_client st \<noteq> None"
    and "(fetch_web (query request) (max_results request) = Raised e
            \<and> fetch_twitter (query request) (max_results request) = Returned xs)
       \<or> (fetch_web (query request) (max_results request) = Returned xs
            \<and> fetch_twitter (query request) (max_results request) = Raised e)"
    and "comparable xs"
  shows "\<exists>res evs. aggregate_content fetch_web fetch_twitter t_start t_end st request = (Inr res, evs, st)
           \<and> items res = sort_key (\<lambda>x. - instant (timestamp x)) xs
           \<and> total_items res = int (length xs)
           \<and> sources_used res = [''web'', ''twitter'']"
  using assms
  by (auto simp: aggregate_content_def Let_def sort_newest_first_def split: prod.splits)

lemma timestamp_tweet_item:
  "timestamp (tweet_item now tw) = (case created_at tw of Some t \<Rightarrow> t | None \<Rightarrow> Naive now)"
  by (simp add: tweet_item_def)

lemma query_only_body_valid:
  "validate_request lax query_only_body = Inr (sample_request [''web'', ''twitter''] 10 True)"
  by (simp add: query_only_body_def lax_def validate_request_def field_query_def field_sources_def
      field_max_results_def field_summarize_def sample_request_def)

lemma twitter_fetch_aware:
  "aggregate_twitter_content (with_twitter (SearchResponse (Some aware_tweets))) (fixed_clock 9) ''rust'' 10
   = Returned [tweet_item 9 (sample_tweet 1 (Some (Aware 5))), tweet_item 9 (sample_tweet 2 (Some (Aware 8)))]"
  by (simp add: aggregate_twitter_content_def with_twitter_def twitter_try_def twitter_replies_def
      aware_tweets_def fixed_clock_def)

text \<open>
  C2. When both fetchers are scheduled, one of them raises and the other returns its
  items, the request is answered with 200: the fetcher that raised adds nothing, the
  items of the result are exactly the items of the fetcher that returned, and
  \<open>sources_used\<close> names both scheduled sources, the failed one included. The items
  returned are taken to be such that the sort can order them (\<open>comparable\<close>): those of
  this module's web fetcher always are (\<open>web_items_comparable\<close>), and so are those of its
  Twitter fetcher when every tweet carries the \<open>created_at\<close> the code asks for
  (\<open>tweets_loop_aware\<close>).
\<close>

theorem C2_one_fetcher_fails:
  assumes "validate_request conv body = Inr request"
    and "''web'' \<in> set (sources request)" and "''twitter'' \<in> set (sources request)"
    and "twitter_client st \<noteq> None"
    and "(fetch_web (query request) (max_results request) = Raised e
            \<and> fetch_twitter (query request) (max_results request) = Returned xs)
       \<or> (fetch_web (query request) (max_results request) = Returned xs
            \<and> fetch_twitter (query request) (max_results request) = Raised e)"
    and "comparable xs"
  shows "\<exists>res evs. post_aggregate conv fetch_web fetch_twitter t_start t_end st body
                     = (OK_200 res, Invoked request # evs, st)
           \<and> mset (items res) = mset xs
           \<and> total_items res = int (length xs)
           \<and> sources_used res = [''web'', ''twitter'']"
proof -
  from assms(2-6)
  have "\<exists>res evs. aggregate_content fetch_web fetch_twitter t_start t_end st request = (Inr res, evs, st)
           \<and> items res = sort_key (\<lambda>x. - instant (timestamp x)) xs
           \<and> total_items res = int (length xs)
           \<and> sources_used res = [''web'', ''twitter'']"
    by (rule aggregate_content_one_fails)
  then obtain res evs where run: "aggregate_content fetch_web fetch_twitter t_start t_end st request = (Inr res, evs, st)"
    and its: "items res = sort_key (\<lambda>x. - instant (timestamp x)) xs"
    and rest: "total_items res = int (length xs)" "sources_used res = [''web'', ''twitter'']"
    by blast
  from its have "mset (items res) = mset xs" by simp
  moreover from run assms(1)
  have "post_aggregate conv fetch_web fetch_twitter t_start t_end st body = (OK_200 res, Invoked request # evs, st)"
    by (simp add: post_aggregate_def)
  ultimately show ?thesis using rest by blast
qed

theorem C2_witness:
  "validate_request lax query_only_body = Inr (sample_request [''web'', ''twitter''] 10 True)
   \<and> fixed_fetch (Raised NetworkError) ''rust'' 10 = Raised NetworkError
   \<and> aggregate_twitter_content (with_twitter (SearchResponse (Some aware_tweets))) (fixed_clock 9) ''rust'' 10
       = Returned [tweet_item 9 (sample_tweet 1 (Some (Aware 5))), tweet_item 9 (sample_tweet 2 (Some (Aware 8)))]
   \<and> comparable [tweet_item 9 (sample_tweet 1 (Some (Aware 5))), tweet_item 9 (sample_tweet 2 (Some (Aware 8)))]
   \<and> (\<exists>res evs. post_aggregate lax (fixed_fetch (Raised NetworkError))
             (aggregate_twitter_content (with_twitter (SearchResponse (Some aware_tweets))) (fixed_clock 9))
             0 1 (with_twitter (SearchResponse (Some aware_tweets))) query_only_body
           = (OK_200 res, Invoked (sample_request [''web'', ''twitter''] 10 True) # evs,
              with_twitter (SearchResponse (Some aware_tweets)))
         \<and> mset (items res)
             = mset [tweet_item 9 (sample_tweet 1 (Some (Aware 5))), tweet_item 9 (sample_tweet 2 (Some (Aware 8)))]
         \<and> sources_used res = [''web'', ''twitter''])"
proof -
  let ?st = "with_twitter (SearchResponse (Some aware_tweets))"
  let ?rq = "sample_request [''web'', ''twitter''] 10 True"
  let ?xs = "[tweet_item 9 (sample_tweet 1 (Some (Aware 5))), tweet_item 9 (sample_tweet 2 (Some (Aware 8)))]"
  have a: "''web'' \<in> set (sources ?rq)" and b: "''twitter'' \<in> set (sources ?rq)"
    by (simp_all add: sample_request_def)
  have c: "twitter_client ?st \<noteq> None"
    by (simp add: with_twitter_def module_init_def)
  have d: "(fixed_fetch (Raised NetworkError) (query ?rq) (max_results ?rq) = Raised NetworkError
            \<and> aggregate_twitter_content ?st (fixed_clock 9) (query ?rq) (max_results ?rq) = Returned ?xs)
       \<or> (fixed_fetch (Raised NetworkError) (query ?rq) (max_results ?rq) = Returned ?xs
            \<and> aggregate_twitter_content ?st (fixed_clock 9) (query ?rq) (max_results ?rq) = Raised NetworkError)"
    using twitter_fetch_aware by (simp add: fixed_fetch_def sample_request_def)
  have e: "comparable ?xs"
    by (simp add: comparable_def timestamp_tweet_item sample_tweet_def)
  from C2_one_fetcher_fails [where fetch_web = "fixed_fetch (Raised NetworkError)"
      and fetch_twitter = "aggregate_twitter_content ?st (fixed_clock 9)"
      and request = ?rq and st = ?st and body = query_only_body and xs = ?xs and e = NetworkError
      and conv = lax
      and t_start = 0 and t_end = 1, OF query_only_body_valid a b c d e]
  show ?thesis
    using query_only_body_valid twitter_fetch_aware e by (auto simp: fixed_fetch_def)
qed

text \<open>
  The same with this module's own fetchers, which catch what goes wrong inside them and
  return: a Twitter search that raises leaves the web items, and a web provider that
  cannot be reached leaves the tweets.
\<close>

lemma aggregate_content_both_returned:
  assumes "''web'' \<in> set (sources request)" and "''twitter'' \<in> set (sources request)"
    and "twitter_client st \<noteq> None"
    and "fetch_web (query request) (max_results request) = Returned xs"
    and "fetch_twitter (query request) (max_results request) = Returned ys"
    and "comparable (xs @ ys)"
  shows "\<exists>res evs. aggregate_content fetch_web fetch_twitter t_start t_end st request = (Inr res, evs, st)
           \<and> items res = sort_key (\<lambda>x. - instant (timestamp x)) (xs @ ys)
           \<and> sources_used res = [''web'', ''twitter'']"
  using assms
  by (auto simp: aggregate_content_def Let_def sort_newest_first_def split: prod.splits)

lemma live_twitter_search_fails:
  assumes "''web'' \<in> set (sources request)" and "''twitter'' \<in> set (sources request)"
    and "twitter_client st = Some client"
    and "client (query request) (min (max_results request) 100) = SearchRaises e"
  shows "\<exists>res evs. aggregate_content_live w st request = (Inr res, evs, st)
           \<and> mset (items res)
               = mset (snd (web_try (http_get w) (web_clock w) (query request) (max_results request)))
           \<and> sources_used res = [''web'', ''twitter'']"
proof -
  let ?xs = "snd (web_try (http_get w) (web_clock w) (query request) (max_results request))"
  have tw: "aggregate_twitter_content st (twitter_clock w) (query request) (max_results request) = Returned []"
    using assms(3,4) by (simp add: aggregate_twitter_content_def twitter_try_def)
  have web: "aggregate_web_content (http_get w) (web_clock w) (query request) (max_results request) = Returned ?xs"
    by (simp add: aggregate_web_content_def)
  have cmp: "comparable (?xs @ [])" using web_items_comparable by simp
  from assms(3) have cl: "twitter_client st \<noteq> None" by simp
  from aggregate_content_both_returned [where fetch_web = "aggregate_web_content (http_get w) (web_clock w)"
      and fetch_twitter = "aggregate_twitter_content st (twitter_clock w)"
      and xs = ?xs and ys = "[]" and t_start = "start_time w" and t_end = "end_time w",
      OF assms(1,2) cl web tw cmp]
  obtain res evs where "aggregate_content_live w st request = (Inr res, evs, st)"
    and "items res = sort_key (\<lambda>x. - instant (timestamp x)) (?xs @ [])"
    and "sources_used res = [''web'', ''twitter'']"
    unfolding aggregate_content_live_def by blast
  then show ?thesis by auto
qed

lemma live_web_unreachable:
  assumes "''web'' \<in> set (sources request)" and "''twitter'' \<in> set (sources request)"
    and "twitter_client st = Some client"
    and "http_get w (search_url (query request)) = GetRaises e"
    and "client (query request) (min (max_results request) 100) = SearchResponse (Some ts)"
    and "\<forall>tw \<in> set ts. \<exists>t. created_at tw = Some (Aware t)"
  shows "\<exists>res evs. aggregate_content_live w st request = (Inr res, evs, st)
           \<and> mset (items res) = mset (tweets_loop (twitter_clock w) ts [])
           \<and> sources_used res = [''web'', ''twitter'']"
proof -
  let ?ys = "tweets_loop (twitter_clock w) ts []"
  have tw: "aggregate_twitter_content st (twitter_clock w) (query request) (max_results request) = Returned ?ys"
    using assms(3,5) by (simp add: aggregate_twitter_content_def twitter_try_def)
  have web: "aggregate_web_content (http_get w) (web_clock w) (query request) (max_results request) = Returned []"
    using assms(4) by (simp add: aggregate_web_content_def web_try_def)
  have "\<forall>x \<in> set ?ys. \<not> is_naive (timestamp x)"
    using assms(6) by (intro tweets_loop_aware) simp_all
  then have cmp: "comparable ([] @ ?ys)" by (simp add: comparable_def list_all_iff)
  from assms(3) have cl: "twitter_client st \<noteq> None" by simp
  from aggregate_content_both_returned [where fetch_web = "aggregate_web_content (http_get w) (web_clock w)"
      and fetch_twitter = "aggregate_twitter_content st (twitter_clock w)"
      and xs = "[]" and ys = ?ys and t_start = "start_time w" and t_end = "end_time w",
      OF assms(1,2) cl web tw cmp]
  obtain res evs where "aggregate_content_live w st request = (Inr res, evs, st)"
    and "items res = sort_key (\<lambda>x. - instant (timestamp x)) ([] @ ?ys)"
    and "sources_used res = [''web'', ''twitter'']"
    unfolding aggregate_content_live_def by blast
  then show ?thesis by auto
qed

subsection \<open>The service boundary\<close>

lemma validate_request_query:
  "validate_request conv body = Inr request \<Longrightarrow> \<exists>kvs. body = JDict kvs \<and> map_of kvs ''query'' = Some (JStr (query request))"
  by (auto simp: lax_def validate_request_def field_query_def split: json.splits sum.splits option.splits)

lemma validate_request_max_results:
  "validate_request conv (JDict kvs) = Inr request \<Longrightarrow>
     (case map_of kvs ''max_results'' of
        None \<Rightarrow> max_results request = 10
      | Some v \<Rightarrow> v = JInt (max_results request) \<or> as_int conv v = Some (max_results request))"
  by (auto simp: validate_request_def field_max_results_def split: json.splits sum.splits option.splits)

text \<open>
  A body whose \<open>query\<close> is the empty string passes validation: the handler is called
  and the request is answered with 200.
\<close>

theorem C7_counterexample:
  "validate_request lax (JDict [(''query'', JStr [])])
     = Inr \<lparr>query = [], sources = [''web'', ''twitter''], max_results = 10, summarize = True\<rparr>
   \<and> post_aggregate lax (fixed_fetch (Returned [])) (fixed_fetch (Returned [])) 0 1 module_init
        (JDict [(''query'', JStr [])])
     = (OK_200 \<lparr>res_query = [], items = [], summary = None, total_items = 0,
                sources_used = [''web''], processing_time = 1\<rparr>,
        [Invoked \<lparr>query = [], sources = [''web'', ''twitter''], max_results = 10, summarize = True\<rparr>],
        module_init)"
  by (simp add: lax_def validate_request_def field_query_def field_sources_def field_max_results_def
      field_summarize_def post_aggregate_def aggregate_content_def Let_def module_init_def
      fixed_fetch_def sort_newest_first_def comparable_def)

text \<open>
  C7, amended. A body that is no object, has no \<open>query\<close>, or has a \<open>query\<close> that is no
  string is answered with 422; the handler is not called (no event is recorded) and the
  module state is untouched.
\<close>

theorem C7_query_missing_or_not_text:
  assumes "\<forall>kvs s. body = JDict kvs \<longrightarrow> map_of kvs ''query'' \<noteq> Some (JStr s)"
  shows "\<exists>errs. post_aggregate conv fetch_web fetch_twitter t_start t_end st body = (Unprocessable_422 errs, [], st)"
proof (cases "validate_request conv body")
  case (Inl errs)
  then show ?thesis by (simp add: post_aggregate_def)
next
  case (Inr request)
  then obtain kvs where "body = JDict kvs" and "map_of kvs ''query'' = Some (JStr (query request))"
    using validate_request_query by blast
  with assms show ?thesis by blast
qed

theorem C7_witness:
  "map_of [(''sources'', JList [JStr ''web'']), (''max_results'', JInt 5)] ''query'' = None
   \<and> map_of [(''query'', JInt 5)] ''query'' = Some (JInt 5)
   \<and> (\<exists>errs. post_aggregate lax (fixed_fetch (Returned [])) (fixed_fetch (Returned [])) 0 1 module_init
         (JDict [(''sources'', JList [JStr ''web'']), (''max_results'', JInt 5)])
        = (Unprocessable_422 errs, [], module_init))
   \<and> (\<exists>errs. post_aggregate lax (fixed_fetch (Returned [])) (fixed_fetch (Returned [])) 0 1 module_init
         (JDict [(''query'', JInt 5)])
        = (Unprocessable_422 errs, [], module_init))"
proof -
  have a: "\<forall>kvs s. JDict [(''sources'', JList [JStr ''web'']), (''max_results'', JInt 5)] = JDict kvs
            \<longrightarrow> map_of kvs ''query'' \<noteq> Some (JStr s)"
    by auto
  have b: "\<forall>kvs s. JDict [(''query'', JInt 5)] = JDict kvs \<longrightarrow> map_of kvs ''query'' \<noteq> Some (JStr s)"
    by auto
  from C7_query_missing_or_not_text [OF a] C7_query_missing_or_not_text [OF b]
  show ?thesis by simp
qed

text \<open>
  A body with \<open>max_results = 0\<close> passes validation and the handler is called with it.
\<close>

theorem C8_counterexample:
  "validate_request lax (JDict [(''query'', JStr ''rust''), (''max_results'', JInt 0)])
     = Inr (sample_request [''web'', ''twitter''] 0 True)
   \<and> post_aggregate lax (fixed_fetch (Returned [])) (fixed_fetch (Returned [])) 0 1 module_init
        (JDict [(''query'', JStr ''rust''), (''max_results'', JInt 0)])
     = (OK_200 \<lparr>res_query = ''rust'', items = [], summary = None, total_items = 0,
                sources_used = [''web''], processing_time = 1\<rparr>,
        [Invoked (sample_request [''web'', ''twitter''] 0 True)], module_init)"
  by (simp add: lax_def validate_request_def field_query_def field_sources_def field_max_results_def
      field_summarize_def post_aggregate_def aggregate_content_def Let_def module_init_def
      fixed_fetch_def sort_newest_first_def comparable_def sample_request_def)

text \<open>
  C8, amended. In every accepted request \<open>max_results\<close> is the integer the body gives,
  or the integer validation converts the given value to (10 when the body gives none),
  and the handler is called with that request. No sign is checked: a body with a query
  and any integer \<open>max_results\<close>, zero and negative ones included, is accepted with that
  value.
\<close>

theorem C8_max_results_any_integer:
  "(validate_request conv (JDict kvs) = Inr request \<longrightarrow>
      (case map_of kvs ''max_results'' of
         None \<Rightarrow> max_results request = 10
       | Some v \<Rightarrow> v = JInt (max_results request) \<or> as_int conv v = Some (max_results request))
      \<and> (\<exists>evs. fst (snd (post_aggregate conv fetch_web fetch_twitter t_start t_end st (JDict kvs)))
                 = Invoked request # evs))
   \<and> validate_request conv (JDict [(''query'', JStr q), (''max_results'', JInt n)])
       = Inr \<lparr>query = q, sources = [''web'', ''twitter''], max_results = n, summarize = True\<rparr>"
proof -
  have a: "\<exists>evs. fst (snd (post_aggregate conv fetch_web fetch_twitter t_start t_end st (JDict kvs)))
                 = Invoked request # evs"
    if "validate_request conv (JDict kvs) = Inr request"
    using that by (auto simp: post_aggregate_def split: prod.splits sum.splits http_exception.splits)
  have b: "validate_request conv (JDict [(''query'', JStr q), (''max_results'', JInt n)])
       = Inr \<lparr>query = q, sources = [''web'', ''twitter''], max_results = n, summarize = True\<rparr>"
    by (simp add: validate_request_def field_query_def field_sources_def field_max_results_def
      field_summarize_def)
  from a b validate_request_max_results show ?thesis by blast
qed

theorem C8_witness:
  "validate_request lax (JDict [(''query'', JStr ''rust''), (''max_results'', JInt (- 3))])
     = Inr (sample_request [''web'', ''twitter''] (- 3) True)
   \<and> (\<exists>evs. fst (snd (post_aggregate lax (fixed_fetch (Returned [])) (fixed_fetch (Returned [])) 0 1 module_init
                  (JDict [(''query'', JStr ''rust''), (''max_results'', JInt (- 3))])))
         = Invoked (sample_request [''web'', ''twitter''] (- 3) True) # evs)"
  using C8_max_results_any_integer [where conv = lax
      and kvs = "[(''query'', JStr ''rust''), (''max_results'', JInt (- 3))]"
      and request = "sample_request [''web'', ''twitter''] (- 3) True"
      and fetch_web = "fixed_fetch (Returned [])" and fetch_twitter = "fixed_fetch (Returned [])"
      and t_start = 0 and t_end = 1 and st = module_init and q = "''rust''" and n = "- 3"]
  by (simp add: sample_request_def)

text \<open>
  With the stand-in conversions a numeral given as a string, or a truth value, is taken
  for \<open>max_results\<close> as the integer it converts to.
\<close>

lemma converted_max_results:
  "validate_request lax (JDict [(''query'', JStr ''rust''), (''max_results'', JStr ''5'')])
     = Inr (sample_request [''web'', ''twitter''] 5 True)"
  "validate_request lax (JDict [(''query'', JStr ''rust''), (''max_results'', JBool True)])
     = Inr (sample_request [''web'', ''twitter''] 1 True)"
  "validate_request lax (JDict [(''query'', JStr ''rust''), (''summarize'', JInt 0)])
     = Inr (sample_request [''web'', ''twitter''] 10 False)"
  by code_simp+

subsection \<open>The list \<open>aggregation_tasks\<close>\<close>

lemma init_openai_tasks: "aggregation_tasks (init_openai env st) = aggregation_tasks st"
  by (simp add: init_openai_def split: option.splits sum.splits)

lemma initialize_services_tasks: "aggregation_tasks (initialize_services env st) = aggregation_tasks st"
  by (simp add: initialize_services_def init_openai_tasks split: option.splits sum.splits)

lemma aggregate_content_state: "snd (snd (aggregate_content fw ft t0 t1 st request)) = st"
  by (simp add: aggregate_content_def Let_def split: sum.splits prod.splits)

lemma post_aggregate_state: "snd (snd (post_aggregate conv fw ft t0 t1 st body)) = st"
proof (cases "validate_request conv body")
  case (Inl errs)
  then show ?thesis by (simp add: post_aggregate_def)
next
  case (Inr request)
  obtain r evs st' where run: "aggregate_content fw ft t0 t1 st request = (r, evs, st')"
    by (cases "aggregate_content fw ft t0 t1 st request") auto
  with aggregate_content_state [of fw ft t0 t1 st request] have "st' = st" by simp
  with Inr run show ?thesis
    by (simp add: post_aggregate_def split: sum.splits http_exception.splits)
qed

lemma step_tasks: "step st st' \<Longrightarrow> aggregation_tasks st' = aggregation_tasks st"
proof (induction rule: step.induct)
  case (startup st env)
  show ?case by (rule initialize_services_tasks)
next
  case (serve_root st html)
  show ?case by (simp add: root_def split: file_read.splits)
next
  case (serve_health st now)
  show ?case by (simp add: health_check_def)
next
  case (serve_status st now)
  show ?case by (simp add: get_status_def)
next
  case (serve_aggregate st conv fetch_web fetch_twitter t0 t1 body)
  show ?case by (simp add: post_aggregate_state)
qed

lemma reachable_tasks: "reachable st \<Longrightarrow> aggregation_tasks st = []"
proof (induction rule: reachable.induct)
  case loaded
  show ?case by (simp add: module_init_def)
next
  case (after st st')
  then show ?case by (simp add: step_tasks)
qed

text \<open>
  C10. No step of the process changes \<open>aggregation_tasks\<close>; in every reachable state
  the list is empty and \<open>GET /status\<close> reports \<open>active_tasks = 0\<close>.
\<close>

theorem C10_active_tasks_zero:
  assumes "reachable st"
  shows "aggregation_tasks st = []
       \<and> active_tasks (fst (get_status now st)) = 0
       \<and> (\<forall>st'. step st st' \<longrightarrow> aggregation_tasks st' = aggregation_tasks st)"
  using reachable_tasks [OF assms] step_tasks by (simp add: get_status_def)

lemma reachable_after_request:
  "reachable (snd (snd (post_aggregate lax (fixed_fetch (Returned [sample_item ''web'' (Naive 1)]))
      (fixed_fetch (Returned [])) 0 1 module_init query_only_body)))"
  by (rule reachable.after [OF reachable.loaded]) (rule step.serve_aggregate)

theorem C10_witness:
  "reachable (snd (snd (post_aggregate lax (fixed_fetch (Returned [sample_item ''web'' (Naive 1)]))
      (fixed_fetch (Returned [])) 0 1 module_init query_only_body)))
   \<and> active_tasks (fst (get_status 7
        (snd (snd (post_aggregate lax (fixed_fetch (Returned [sample_item ''web'' (Naive 1)]))
           (fixed_fetch (Returned [])) 0 1 module_init query_only_body))))) = 0"
  using C10_active_tasks_zero [OF reachable_after_request, of 7] reachable_after_request by simp

end
